theory Spec2Isabelle
  imports Main "HOL-Library.AList"
begin

section \<open>Python values\<close>

text \<open>
  The fixtures of \<^verbatim>\<open>pytest_django/fixtures.py\<close> read configuration values that are either
  \<^verbatim>\<open>None\<close> or a string (\<^verbatim>\<open>os.getenv\<close>, \<^verbatim>\<open>config.getvalue\<close>, \<^verbatim>\<open>dict.get\<close>); such a value is a
  \<open>string option\<close>. \<open>truthy\<close> is Python's truth test on it: \<^verbatim>\<open>None\<close> and the empty string are
  false. A Python \<^verbatim>\<open>dict\<close> with string keys is an association list with distinct keys;
  \<open>AList.update\<close> is item assignment (the key keeps its place, a new key goes last).
\<close>

definition truthy :: "string option \<Rightarrow> bool" where
  "truthy v = (case v of None \<Rightarrow> False | Some s \<Rightarrow> s \<noteq> [])"

text \<open>\<^verbatim>\<open>a or b\<close> on two such values, and \<^verbatim>\<open>a or b or "default"\<close>.\<close>

definition py_or :: "string option \<Rightarrow> string option \<Rightarrow> string option" where
  "py_or a b = (if truthy a then a else b)"

definition py_or_default :: "string option \<Rightarrow> string option \<Rightarrow> string \<Rightarrow> string" where
  "py_or_default a b dflt = (case py_or a b of None \<Rightarrow> dflt | Some s \<Rightarrow> if s = [] then dflt else s)"

text \<open>\<^verbatim>\<open>str(n)\<close> for an integer: decimal digits, a minus sign for a negative number.\<close>

definition digit_char :: "nat \<Rightarrow> char" where
  "digit_char d = ''0123456789'' ! d"

fun str_nat :: "nat \<Rightarrow> string" where
  "str_nat n = (if n < 10 then [digit_char n] else str_nat (n div 10) @ [digit_char (n mod 10)])"

definition str_int :: "int \<Rightarrow> string" where
  "str_int i = (if i < 0 then CHR ''-'' # str_nat (nat (- i)) else str_nat (nat i))"

text \<open>\<^verbatim>\<open>sep.join(xs)\<close>.\<close>

fun join :: "string \<Rightarrow> string list \<Rightarrow> string" where
  "join sep [] = []"
| "join sep [x] = x"
| "join sep (x # y # ys) = x @ sep @ join sep (y # ys)"

text \<open>
  A Python exception instance: its class name and its \<^verbatim>\<open>str()\<close>. Whatever leaves a function
  by raising is such a value; \<^verbatim>\<open>pytest.skip\<close> raises one as well.
\<close>

datatype exc = Exc (exc_class: string) (exc_str: string)

text \<open>Plain values passed as keyword arguments.\<close>

datatype pyval = PyNone | PyBool bool | PyInt int | PyStr string

type_synonym kwargs = "(string \<times> pyval) list"

section \<open>The surroundings of the fixtures\<close>

text \<open>
  \<^verbatim>\<open>os.environ\<close> as far as the module reads it, and \<^verbatim>\<open>request.config\<close>: the command-line
  options read with \<^verbatim>\<open>getvalue\<close>/\<^verbatim>\<open>getoption\<close>, and \<^verbatim>\<open>workerinput\<close>, an attribute that only an
  xdist worker has.
\<close>

record os_environ =
  TOX_PARALLEL_ENV :: "string option"
  DJANGO_TRANSACTION_TEST_CASE_CLASS :: "string option"
  DJANGO_TEST_CASE_CLASS :: "string option"
  DJANGO_LIVE_TEST_SERVER_ADDRESS :: "string option"

record config =
  workerinput :: "(string \<times> string) list option"
  nomigrations :: bool
  reuse_db :: bool
  create_db :: bool
  verbose :: int
  transaction_testcase_class :: "string option"
  testcase_class :: "string option"
  liveserver :: "string option"

section \<open>The database configuration and the parallel suffix\<close>

text \<open>
  One entry of \<^verbatim>\<open>settings.DATABASES\<close>. Django fills in \<^verbatim>\<open>ENGINE\<close> and \<^verbatim>\<open>NAME\<close> for every
  connection, so both are fields; \<^verbatim>\<open>TEST\<close> is a dictionary that may be absent, and its
  \<^verbatim>\<open>NAME\<close> may be absent, \<^verbatim>\<open>None\<close> or a string.
\<close>

type_synonym test_dict = "(string \<times> string option) list"

record db_settings =
  ENGINE :: string
  NAME :: string
  TEST :: "test_dict option"

type_synonym databases = "(string \<times> db_settings) list"

text \<open>\<^verbatim>\<open>db_settings.get("TEST", {}).get("NAME")\<close>\<close>

definition get_test_name :: "db_settings \<Rightarrow> string option" where
  "get_test_name db_settings =
     (case TEST db_settings of
        None \<Rightarrow> None
      | Some t \<Rightarrow> (case map_of t ''NAME'' of None \<Rightarrow> None | Some v \<Rightarrow> v))"

text \<open>
  The body of the loop of \<^verbatim>\<open>_set_suffix_to_test_databases\<close>, for one connection. The two
  \<^verbatim>\<open>continue\<close> statements leave the entry as it is; otherwise \<^verbatim>\<open>setdefault("TEST", {})\<close> and
  the assignment to \<^verbatim>\<open>["TEST"]["NAME"]\<close> follow.
\<close>

definition set_suffix_to_test_database :: "string \<Rightarrow> db_settings \<Rightarrow> db_settings" where
  "set_suffix_to_test_database suffix db_settings =
     (let test_name = get_test_name db_settings;
          resolved =
            (if \<not> truthy test_name
             then (if ENGINE db_settings = ''django.db.backends.sqlite3'' then None
                   else Some (''test_'' @ NAME db_settings))
             else test_name)
      in case resolved of
           None \<Rightarrow> db_settings
         | Some test_name \<Rightarrow>
             if test_name = '':memory:'' then db_settings
             else db_settings\<lparr>TEST :=
                    Some (AList.update ''NAME'' (Some (test_name @ ''_'' @ suffix))
                            (case TEST db_settings of None \<Rightarrow> [] | Some t \<Rightarrow> t))\<rparr>)"

text \<open>\<^verbatim>\<open>for db_settings in settings.DATABASES.values(): ...\<close>, in the dictionary's order.\<close>

fun set_suffix_to_test_databases :: "string \<Rightarrow> databases \<Rightarrow> databases" where
  "set_suffix_to_test_databases suffix [] = []"
| "set_suffix_to_test_databases suffix ((alias, db_settings) # rest) =
     (alias, set_suffix_to_test_database suffix db_settings)
       # set_suffix_to_test_databases suffix rest"

text \<open>
  The databases the loop passes over: no test name on the sqlite3 engine (Django then
  tests in memory), or the test name \<^verbatim>\<open>:memory:\<close>.
\<close>

definition in_memory :: "db_settings \<Rightarrow> bool" where
  "in_memory db_settings =
     ((\<not> truthy (get_test_name db_settings)
         \<and> ENGINE db_settings = ''django.db.backends.sqlite3'')
      \<or> get_test_name db_settings = Some '':memory:'')"

section \<open>Django and the runner, as the fixtures call them\<close>

text \<open>
  The class \<^verbatim>\<open>PytestDjangoTestCase\<close> that \<^verbatim>\<open>_django_db_fixture_helper\<close> derives: its base class
  (the imported class, named by its dotted path) and the two class attributes the class
  body may set. \<open>None\<close> means the attribute is not set in the body and is inherited.
  \<^verbatim>\<open>_pytest_django_databases\<close> is \<^verbatim>\<open>"__all__"\<close> or a collection of aliases.
\<close>

datatype django_db_databases = All_databases | Aliases "string list"

record PytestDjangoTestCase =
  tc_base :: string
  tc_reset_sequences :: "bool option"
  tc_databases :: "django_db_databases option"

text \<open>The value \<^verbatim>\<open>setup_databases\<close> returns and \<^verbatim>\<open>teardown_databases\<close> takes back.\<close>

type_synonym db_cfg = "string list"

text \<open>
  What lies outside the module and can fail or differ from run to run is a parameter:
  \<^verbatim>\<open>skip_if_no_django()\<close> (\<open>Some e\<close> when it raises the skip), Django's \<^verbatim>\<open>import_string\<close>,
  \<^verbatim>\<open>setup_databases\<close>, \<^verbatim>\<open>teardown_databases\<close>, and the \<^verbatim>\<open>setUpClass\<close> and \<^verbatim>\<open>_pre_setup\<close> of a
  test case (\<open>Some e\<close> when the call raises \<open>e\<close>). \<open>py_repr\<close> is \<^verbatim>\<open>repr()\<close> of an
  exception.
\<close>

record django =
  skip_if_no_django :: "exc option"
  import_string :: "string \<Rightarrow> exc + string"
  setup_databases :: "kwargs \<Rightarrow> exc + db_cfg"
  teardown_databases :: "db_cfg \<Rightarrow> int \<Rightarrow> exc option"
  setUpClass :: "PytestDjangoTestCase \<Rightarrow> exc option"
  pre_setup :: "PytestDjangoTestCase \<Rightarrow> exc option"
  py_repr :: "exc \<Rightarrow> string"

text \<open>
  \<^verbatim>\<open>request\<close>: whether \<^verbatim>\<open>is_django_unittest(request)\<close> holds, \<^verbatim>\<open>request.fixturenames\<close>,
  \<^verbatim>\<open>getattr(request.node, "_pytest_django_databases", None)\<close> and \<^verbatim>\<open>request.config\<close>.
\<close>

record request =
  is_django_unittest :: bool
  fixturenames :: "string list"
  pytest_django_databases :: "django_db_databases option"
  request_config :: config

text \<open>
  The calls the fixtures make into the blocker, Django and the live server, in the order
  they are made; \<open>Test_body\<close> marks the test function itself.
\<close>

datatype event =
    Unblock
  | Restore
  | Setup_databases kwargs
  | Teardown_databases db_cfg int
  | SetUpClass PytestDjangoTestCase
  | Pre_setup PytestDjangoTestCase
  | Post_teardown PytestDjangoTestCase
  | TearDownClass PytestDjangoTestCase
  | LiveServer string
  | Server_stop
  | Modified_settings_enable
  | Modified_settings_disable
  | Test_body bool

text \<open>The callables handed to \<^verbatim>\<open>request.addfinalizer\<close>.\<close>

datatype finalizer =
    Fin_teardown_database db_cfg
  | Fin_blocker_restore
  | Fin_tearDownClass PytestDjangoTestCase
  | Fin_post_teardown PytestDjangoTestCase
  | Fin_server_stop
  | Fin_modified_settings_disable

section \<open>Migrations switched off\<close>

text \<open>
  \<^verbatim>\<open>settings.MIGRATION_MODULES\<close> is a dictionary from app labels to a module path or
  \<^verbatim>\<open>None\<close>, or the instance of the local class \<^verbatim>\<open>DisableMigrations\<close>. \<open>contains\<close> is
  \<^verbatim>\<open>item in m\<close> and \<open>getitem\<close> is \<^verbatim>\<open>m[item]\<close>; a dictionary raises \<^verbatim>\<open>KeyError\<close> on a
  missing key.
\<close>

datatype migration_modules =
    Migration_dict "(string \<times> string option) list"
  | DisableMigrations

datatype key_error = KeyError string

definition contains :: "migration_modules \<Rightarrow> string \<Rightarrow> bool" where
  "contains m item =
     (case m of Migration_dict d \<Rightarrow> item \<in> set (map fst d) | DisableMigrations \<Rightarrow> True)"

definition getitem :: "migration_modules \<Rightarrow> string \<Rightarrow> key_error + string option" where
  "getitem m item =
     (case m of
        Migration_dict d \<Rightarrow> (case map_of d item of None \<Rightarrow> Inl (KeyError item) | Some v \<Rightarrow> Inr v)
      | DisableMigrations \<Rightarrow> Inr None)"

text \<open>
  \<^verbatim>\<open>migrate.Command\<close> is Django's command class or the local subclass
  \<^verbatim>\<open>MigrateSilentCommand\<close>, whose \<^verbatim>\<open>handle\<close> sets \<^verbatim>\<open>kwargs["verbosity"] = 0\<close> and calls the
  inherited \<^verbatim>\<open>handle\<close>. Django's own \<^verbatim>\<open>handle\<close> is the parameter \<open>django_handle\<close>.
\<close>

datatype migrate_command = Command | MigrateSilentCommand

definition handle :: "migrate_command \<Rightarrow> (kwargs \<Rightarrow> 'r) \<Rightarrow> kwargs \<Rightarrow> 'r" where
  "handle cmd django_handle kw =
     (case cmd of
        Command \<Rightarrow> django_handle kw
      | MigrateSilentCommand \<Rightarrow> django_handle (AList.update ''verbosity'' (PyInt 0) kw))"

section \<open>The state the fixtures change\<close>

text \<open>
  The module-level state (\<^verbatim>\<open>settings.MIGRATION_MODULES\<close>, \<^verbatim>\<open>migrate.Command\<close>), the calls
  made so far, the warnings attached with \<^verbatim>\<open>request.node.warn\<close>, the finalizers registered
  by session fixtures and by the fixtures of the running test (last registered first),
  the function-scoped fixtures already set up for the running test, and whether the
  session-scoped \<^verbatim>\<open>live_server\<close> fixture has been set up.
\<close>

record state =
  MIGRATION_MODULES :: migration_modules
  migrate_Command :: migrate_command
  trace :: "event list"
  warnings :: "string list"
  session_finalizers :: "finalizer list"
  function_finalizers :: "finalizer list"
  fixture_cache :: "string list"
  live_server_cached :: bool

definition emit :: "event \<Rightarrow> state \<Rightarrow> state" where
  "emit e st = st\<lparr>trace := trace st @ [e]\<rparr>"

definition warn :: "string \<Rightarrow> state \<Rightarrow> state" where
  "warn msg st = st\<lparr>warnings := warnings st @ [msg]\<rparr>"

text \<open>\<^verbatim>\<open>request.addfinalizer\<close> from a function-scoped and from a session-scoped fixture.\<close>

definition addfinalizer :: "finalizer \<Rightarrow> state \<Rightarrow> state" where
  "addfinalizer f st = st\<lparr>function_finalizers := f # function_finalizers st\<rparr>"

definition session_addfinalizer :: "finalizer \<Rightarrow> state \<Rightarrow> state" where
  "session_addfinalizer f st = st\<lparr>session_finalizers := f # session_finalizers st\<rparr>"

section \<open>The session fixtures of the parallel suffix\<close>

text \<open>
  Both fixtures start with \<^verbatim>\<open>skip_if_no_django()\<close>; a fixture that is left by an exception
  returns \<open>Inl\<close> of it. \<^verbatim>\<open>getattr(request.config, "workerinput", {}).get("workerid")\<close> is the
  xdist worker's id.
\<close>

definition django_db_modify_db_settings_tox_suffix ::
  "django \<Rightarrow> os_environ \<Rightarrow> databases \<Rightarrow> exc + databases" where
  "django_db_modify_db_settings_tox_suffix dj environ dbs =
     (case skip_if_no_django dj of
        Some e \<Rightarrow> Inl e
      | None \<Rightarrow>
          (let tox_environment = TOX_PARALLEL_ENV environ
           in case tox_environment of
                None \<Rightarrow> Inr dbs
              | Some suffix \<Rightarrow>
                  if truthy tox_environment
                  then Inr (set_suffix_to_test_databases suffix dbs) else Inr dbs))"

definition django_db_modify_db_settings_xdist_suffix ::
  "django \<Rightarrow> request \<Rightarrow> databases \<Rightarrow> exc + databases" where
  "django_db_modify_db_settings_xdist_suffix dj request dbs =
     (case skip_if_no_django dj of
        Some e \<Rightarrow> Inl e
      | None \<Rightarrow>
          (let xdist_suffix =
                 map_of (case workerinput (request_config request) of None \<Rightarrow> [] | Some w \<Rightarrow> w)
                   ''workerid''
           in case xdist_suffix of
                None \<Rightarrow> Inr dbs
              | Some suffix \<Rightarrow>
                  if truthy xdist_suffix
                  then Inr (set_suffix_to_test_databases suffix dbs) else Inr dbs))"

text \<open>
  \<^verbatim>\<open>django_db_modify_db_settings_parallel_suffix\<close> requests the tox fixture and then the xdist
  fixture, in the order of its parameters, before its own body runs;
  \<^verbatim>\<open>django_db_modify_db_settings\<close> requests that one.
\<close>

definition django_db_modify_db_settings_parallel_suffix ::
  "django \<Rightarrow> os_environ \<Rightarrow> request \<Rightarrow> databases \<Rightarrow> exc + databases" where
  "django_db_modify_db_settings_parallel_suffix dj environ request dbs =
     (case django_db_modify_db_settings_tox_suffix dj environ dbs of
        Inl e \<Rightarrow> Inl e
      | Inr dbs1 \<Rightarrow>
          (case django_db_modify_db_settings_xdist_suffix dj request dbs1 of
             Inl e \<Rightarrow> Inl e
           | Inr dbs2 \<Rightarrow> (case skip_if_no_django dj of Some e \<Rightarrow> Inl e | None \<Rightarrow> Inr dbs2)))"

definition django_db_modify_db_settings ::
  "django \<Rightarrow> os_environ \<Rightarrow> request \<Rightarrow> databases \<Rightarrow> exc + databases" where
  "django_db_modify_db_settings dj environ request dbs =
     (case django_db_modify_db_settings_parallel_suffix dj environ request dbs of
        Inl e \<Rightarrow> Inl e
      | Inr dbs1 \<Rightarrow> (case skip_if_no_django dj of Some e \<Rightarrow> Inl e | None \<Rightarrow> Inr dbs1))"

section \<open>The database setup of the session\<close>

text \<open>
  \<^verbatim>\<open>_disable_native_migrations\<close> assigns the two module-level names and nothing else.
\<close>

definition disable_native_migrations :: "state \<Rightarrow> state" where
  "disable_native_migrations st =
     st\<lparr>MIGRATION_MODULES := DisableMigrations, migrate_Command := MigrateSilentCommand\<rparr>"

definition django_db_use_migrations :: "request \<Rightarrow> bool" where
  "django_db_use_migrations request = (\<not> nomigrations (request_config request))"

definition django_db_keepdb :: "request \<Rightarrow> bool" where
  "django_db_keepdb request = reuse_db (request_config request)"

definition django_db_createdb :: "request \<Rightarrow> bool" where
  "django_db_createdb request = create_db (request_config request)"

text \<open>
  The inner function \<^verbatim>\<open>teardown_database\<close> of \<^verbatim>\<open>django_db_setup\<close>. The \<^verbatim>\<open>with\<close> block unblocks
  and restores the blocker; \<^verbatim>\<open>except Exception as exc\<close> turns what \<^verbatim>\<open>teardown_databases\<close>
  raises into a warning on the session node, formatted with \<^verbatim>\<open>%r\<close>. A function that
  returns gives \<open>None\<close>, one that raises \<open>e\<close> gives \<open>Some e\<close>.
\<close>

definition teardown_database :: "django \<Rightarrow> request \<Rightarrow> db_cfg \<Rightarrow> state \<Rightarrow> exc option \<times> state" where
  "teardown_database dj request db_cfg st =
     (let verbosity = verbose (request_config request);
          st1 = emit (Teardown_databases db_cfg verbosity) (emit Unblock st)
      in case teardown_databases dj db_cfg verbosity of
           None \<Rightarrow> (None, emit Restore st1)
         | Some e \<Rightarrow>
             (None,
              emit Restore
                (warn (''Error when trying to teardown test databases: '' @ py_repr dj e) st1)))"

text \<open>
  \<^verbatim>\<open>django_db_setup\<close>, with the values of the fixtures it requests as arguments. An
  exception of \<^verbatim>\<open>setup_databases\<close> leaves the \<^verbatim>\<open>with\<close> block (the blocker is restored) and the
  fixture.
\<close>

definition django_db_setup ::
  "django \<Rightarrow> request \<Rightarrow> bool \<Rightarrow> bool \<Rightarrow> bool \<Rightarrow> state \<Rightarrow> exc option \<times> state" where
  "django_db_setup dj request use_migrations keepdb createdb st =
     (let st1 = (if \<not> use_migrations then disable_native_migrations st else st);
          setup_databases_args =
            (if keepdb \<and> \<not> createdb then [(''keepdb'', PyBool True)] else []);
          kw = [(''verbosity'', PyInt (verbose (request_config request))),
                (''interactive'', PyBool False)] @ setup_databases_args;
          st2 = emit (Setup_databases kw) (emit Unblock st1)
      in case setup_databases dj kw of
           Inl e \<Rightarrow> (Some e, emit Restore st2)
         | Inr db_cfg \<Rightarrow>
             (let st3 = emit Restore st2
              in (None,
                  if \<not> keepdb then session_addfinalizer (Fin_teardown_database db_cfg) st3
                  else st3)))"

text \<open>
  Calling a registered finalizer. The runner calls the finalizers of a scope in the
  reverse order of their registration and calls every one of them, also after one has
  raised; the first exception is kept.
\<close>

definition run_finalizer :: "django \<Rightarrow> request \<Rightarrow> finalizer \<Rightarrow> state \<Rightarrow> exc option \<times> state" where
  "run_finalizer dj request f st =
     (case f of
        Fin_teardown_database db_cfg \<Rightarrow> teardown_database dj request db_cfg st
      | Fin_blocker_restore \<Rightarrow> (None, emit Restore st)
      | Fin_tearDownClass tc \<Rightarrow> (None, emit (TearDownClass tc) st)
      | Fin_post_teardown tc \<Rightarrow> (None, emit (Post_teardown tc) st)
      | Fin_server_stop \<Rightarrow> (None, emit Server_stop st)
      | Fin_modified_settings_disable \<Rightarrow> (None, emit Modified_settings_disable st))"

fun run_finalizers ::
  "django \<Rightarrow> request \<Rightarrow> finalizer list \<Rightarrow> state \<Rightarrow> exc option \<times> state" where
  "run_finalizers dj request [] st = (None, st)"
| "run_finalizers dj request (f # fs) st =
     (case run_finalizer dj request f st of
        (r, st1) \<Rightarrow>
          (case run_finalizers dj request fs st1 of
             (r', st2) \<Rightarrow> (if r = None then r' else r, st2)))"

text \<open>The end of the session: the finalizers of the session fixtures run.\<close>

definition session_finish :: "django \<Rightarrow> request \<Rightarrow> state \<Rightarrow> exc option \<times> state" where
  "session_finish dj request st =
     run_finalizers dj request (session_finalizers st) (st\<lparr>session_finalizers := []\<rparr>)"

section \<open>The database fixtures of a test\<close>

text \<open>
  \<^verbatim>\<open>import_from_string\<close>: an \<^verbatim>\<open>ImportError\<close> (or its subclass \<^verbatim>\<open>ModuleNotFoundError\<close>) of
  \<^verbatim>\<open>import_string\<close> is replaced by an \<^verbatim>\<open>ImportError\<close> whose message names the value and the
  setting; any other exception passes through. \<open>quoted s\<close> is \<open>s\<close> between two single
  quotes, as the format \<^verbatim>\<open>'%s'\<close> writes it.
\<close>

definition quoted :: "string \<Rightarrow> string" where
  "quoted s = [CHR 0x27] @ s @ [CHR 0x27]"

definition import_from_string :: "django \<Rightarrow> string \<Rightarrow> string \<Rightarrow> exc + string" where
  "import_from_string dj val setting_name =
     (case import_string dj val of
        Inr c \<Rightarrow> Inr c
      | Inl e \<Rightarrow>
          if exc_class e = ''ImportError'' \<or> exc_class e = ''ModuleNotFoundError''
          then Inl (Exc ''ImportError''
                 (''Could not import '' @ quoted val @ '' for API setting ''
                    @ quoted setting_name @ ''. '' @ exc_class e @ '': '' @ exc_str e @ ''.''))
          else Inl e)"

text \<open>
  \<^verbatim>\<open>_django_db_fixture_helper\<close>. The two guards return at once. After them every statement
  is kept in its place: the blocker is unblocked and its restore registered before the
  class is imported, so an exception of \<^verbatim>\<open>import_string\<close>, \<^verbatim>\<open>setUpClass\<close> or \<^verbatim>\<open>_pre_setup\<close>
  leaves the helper with the finalizers registered so far.
\<close>

definition django_db_fixture_helper ::
  "django \<Rightarrow> os_environ \<Rightarrow> request \<Rightarrow> bool \<Rightarrow> bool \<Rightarrow> state \<Rightarrow> exc option \<times> state" where
  "django_db_fixture_helper dj environ request transactional reset_sequences st =
     (if is_django_unittest request then (None, st)
      else if \<not> transactional \<and> ''live_server'' \<in> set (fixturenames request) then (None, st)
      else
        (let databases = pytest_django_databases request;
             st1 = addfinalizer Fin_blocker_restore (emit Unblock st);
             test_case_classname =
               (if transactional
                then py_or_default (transaction_testcase_class (request_config request))
                       (DJANGO_TRANSACTION_TEST_CASE_CLASS environ)
                       ''django.test.TransactionTestCase''
                else py_or_default (testcase_class (request_config request))
                       (DJANGO_TEST_CASE_CLASS environ)
                       ''django.test.TestCase'')
         in case import_string dj test_case_classname of
              Inl e \<Rightarrow> (Some e, st1)
            | Inr test_case_class \<Rightarrow>
                (let tc = \<lparr>tc_base = test_case_class,
                           tc_reset_sequences =
                             (if transactional \<and> reset_sequences then Some True else None),
                           tc_databases = databases\<rparr>
                 in case setUpClass dj tc of
                      Some e \<Rightarrow> (Some e, emit (SetUpClass tc) st1)
                    | None \<Rightarrow>
                        (let st2 = addfinalizer (Fin_tearDownClass tc) (emit (SetUpClass tc) st1)
                         in case pre_setup dj tc of
                              Some e \<Rightarrow> (Some e, emit (Pre_setup tc) st2)
                            | None \<Rightarrow>
                                (None,
                                 addfinalizer (Fin_post_teardown tc)
                                   (emit (Pre_setup tc) st2))))))"

text \<open>
  \<^verbatim>\<open>request.getfixturevalue(name)\<close> for a function-scoped fixture: the fixture function runs
  unless the fixture has been set up for this test already.
\<close>

definition getfixturevalue ::
  "string \<Rightarrow> (state \<Rightarrow> exc option \<times> state) \<Rightarrow> state \<Rightarrow> exc option \<times> state" where
  "getfixturevalue name fixture st =
     (if name \<in> set (fixture_cache st) then (None, st)
      else case fixture st of
             (None, st1) \<Rightarrow> (None, st1\<lparr>fixture_cache := name # fixture_cache st1\<rparr>)
           | (Some e, st1) \<Rightarrow> (Some e, st1))"

text \<open>
  The three database fixtures. Each also requests \<^verbatim>\<open>django_db_setup\<close> and
  \<^verbatim>\<open>django_db_blocker\<close>, session fixtures that are set up before any of them runs.
\<close>

definition django_db_reset_sequences ::
  "django \<Rightarrow> os_environ \<Rightarrow> request \<Rightarrow> state \<Rightarrow> exc option \<times> state" where
  "django_db_reset_sequences dj environ request st =
     django_db_fixture_helper dj environ request True True st"

definition transactional_db ::
  "django \<Rightarrow> os_environ \<Rightarrow> request \<Rightarrow> state \<Rightarrow> exc option \<times> state" where
  "transactional_db dj environ request st =
     (case (if ''django_db_reset_sequences'' \<in> set (fixturenames request)
            then getfixturevalue ''django_db_reset_sequences''
                   (django_db_reset_sequences dj environ request) st
            else (None, st)) of
        (Some e, st1) \<Rightarrow> (Some e, st1)
      | (None, st1) \<Rightarrow> django_db_fixture_helper dj environ request True False st1)"

definition db :: "django \<Rightarrow> os_environ \<Rightarrow> request \<Rightarrow> state \<Rightarrow> exc option \<times> state" where
  "db dj environ request st =
     (case (if ''django_db_reset_sequences'' \<in> set (fixturenames request)
            then getfixturevalue ''django_db_reset_sequences''
                   (django_db_reset_sequences dj environ request) st
            else (None, st)) of
        (Some e, st1) \<Rightarrow> (Some e, st1)
      | (None, st1) \<Rightarrow>
          if ''transactional_db'' \<in> set (fixturenames request)
               \<or> ''live_server'' \<in> set (fixturenames request)
          then getfixturevalue ''transactional_db'' (transactional_db dj environ request) st1
          else django_db_fixture_helper dj environ request False False st1)"

text \<open>
  \<^verbatim>\<open>live_server\<close> is session-scoped: it runs once in a session. \<^verbatim>\<open>_live_server_helper\<close> is
  the autouse fixture of every test.
\<close>

definition live_server ::
  "django \<Rightarrow> os_environ \<Rightarrow> request \<Rightarrow> state \<Rightarrow> exc option \<times> state" where
  "live_server dj environ request st =
     (if live_server_cached st then (None, st)
      else case skip_if_no_django dj of
             Some e \<Rightarrow> (Some e, st)
           | None \<Rightarrow>
               (let addr = py_or_default (liveserver (request_config request))
                             (DJANGO_LIVE_TEST_SERVER_ADDRESS environ) ''localhost''
                in (None,
                    (session_addfinalizer Fin_server_stop (emit (LiveServer addr) st))
                      \<lparr>live_server_cached := True\<rparr>)))"

definition live_server_helper ::
  "django \<Rightarrow> os_environ \<Rightarrow> request \<Rightarrow> state \<Rightarrow> exc option \<times> state" where
  "live_server_helper dj environ request st =
     (if ''live_server'' \<notin> set (fixturenames request) then (None, st)
      else case getfixturevalue ''transactional_db'' (transactional_db dj environ request) st of
             (Some e, st1) \<Rightarrow> (Some e, st1)
           | (None, st1) \<Rightarrow>
               (case live_server dj environ request st1 of
                  (Some e, st2) \<Rightarrow> (Some e, st2)
                | (None, st2) \<Rightarrow>
                    (None,
                     addfinalizer Fin_modified_settings_disable
                       (emit Modified_settings_enable st2))))"

section \<open>One test, as the runner executes it\<close>

text \<open>
  The runner sets up the fixtures of a test in the order of \<^verbatim>\<open>request.fixturenames\<close>, each
  through the cache of \<open>getfixturevalue\<close>. The fixtures of this module that take part in
  the database lifecycle are dispatched by name; every other fixture leaves the state
  as it is.
\<close>

definition fixture_named ::
  "django \<Rightarrow> os_environ \<Rightarrow> request \<Rightarrow> string \<Rightarrow> state \<Rightarrow> exc option \<times> state" where
  "fixture_named dj environ request name st =
     (if name = ''db'' then getfixturevalue name (db dj environ request) st
      else if name = ''transactional_db''
        then getfixturevalue name (transactional_db dj environ request) st
      else if name = ''django_db_reset_sequences''
        then getfixturevalue name (django_db_reset_sequences dj environ request) st
      else if name = ''_live_server_helper''
        then getfixturevalue name (live_server_helper dj environ request) st
      else if name = ''live_server'' then live_server dj environ request st
      else (None, st))"

fun fillfixtures ::
  "django \<Rightarrow> os_environ \<Rightarrow> request \<Rightarrow> string list \<Rightarrow> state \<Rightarrow> exc option \<times> state" where
  "fillfixtures dj environ request [] st = (None, st)"
| "fillfixtures dj environ request (name # names) st =
     (case fixture_named dj environ request name st of
        (Some e, st1) \<Rightarrow> (Some e, st1)
      | (None, st1) \<Rightarrow> fillfixtures dj environ request names st1)"

text \<open>
  A test starts with no function-scoped fixture set up and no function-scoped
  finalizer. \<open>setup_test\<close> is its setup phase.
\<close>

definition setup_test :: "django \<Rightarrow> os_environ \<Rightarrow> request \<Rightarrow> state \<Rightarrow> exc option \<times> state" where
  "setup_test dj environ request st =
     fillfixtures dj environ request (fixturenames request)
       (st\<lparr>function_finalizers := [], fixture_cache := []\<rparr>)"

text \<open>
  The whole test: the setup phase; the test function, which runs only when the setup
  raised nothing and passes or fails (\<open>body_passes\<close>); then every registered finalizer,
  whatever happened before.
\<close>

definition run_test ::
  "django \<Rightarrow> os_environ \<Rightarrow> request \<Rightarrow> bool \<Rightarrow> state \<Rightarrow> exc option \<times> state" where
  "run_test dj environ request body_passes st =
     (case setup_test dj environ request st of
        (r, st1) \<Rightarrow>
          (let st2 = (if r = None then emit (Test_body body_passes) st1 else st1)
           in case run_finalizers dj request (function_finalizers st2)
                     (st2\<lparr>function_finalizers := [], fixture_cache := []\<rparr>) of
                (r', st3) \<Rightarrow> (if r = None then r' else r, st3)))"

text \<open>The test cases whose \<^verbatim>\<open>_pre_setup\<close> and whose \<^verbatim>\<open>_post_teardown\<close> were called.\<close>

fun pre_setups :: "event list \<Rightarrow> PytestDjangoTestCase list" where
  "pre_setups [] = []"
| "pre_setups (Pre_setup tc # es) = tc # pre_setups es"
| "pre_setups (e # es) = pre_setups es"

fun post_teardowns :: "event list \<Rightarrow> PytestDjangoTestCase list" where
  "post_teardowns [] = []"
| "post_teardowns (Post_teardown tc # es) = tc # post_teardowns es"
| "post_teardowns (e # es) = post_teardowns es"

section \<open>The query-count assertions\<close>

text \<open>
  \<^verbatim>\<open>_assert_num_queries\<close> after its \<^verbatim>\<open>yield\<close>, that is, once the wrapped block has returned:
  \<open>captured_queries\<close> holds the \<^verbatim>\<open>sql\<close> of each query the block performed. \<open>None\<close> is a
  normal return, \<open>Some msg\<close> is \<^verbatim>\<open>pytest.fail(msg)\<close>.
\<close>

definition assert_num_queries ::
  "config \<Rightarrow> int \<Rightarrow> bool \<Rightarrow> string option \<Rightarrow> string list \<Rightarrow> string option" where
  "assert_num_queries cfg num exact info captured_queries =
     (let verbose_on = (0 < verbose cfg);
          num_performed = int (length captured_queries);
          failed = (if exact then num \<noteq> num_performed else num < num_performed)
      in if failed
         then
           (let msg0 = ''Expected to perform '' @ str_int num @ '' queries ''
                         @ (if exact then [] else ''or less '')
                         @ (''but ''
                              @ (if num_performed = 1 then ''1 was''
                                 else str_int num_performed @ '' were'')
                              @ '' done'');
                msg1 = (case info of
                          None \<Rightarrow> msg0
                        | Some i \<Rightarrow> if truthy info then msg0 @ ''\<newline>'' @ i else msg0)
            in Some (if verbose_on
                     then msg1 @ ''\<newline>\<newline>Queries:\<newline>========\<newline>\<newline>''
                            @ join ''\<newline>\<newline>'' captured_queries
                     else msg1 @ '' (add -v option to show queries)''))
         else None)"

text \<open>
  The two fixtures return \<^verbatim>\<open>partial(_assert_num_queries, pytestconfig)\<close>, the second with
  \<^verbatim>\<open>exact=False\<close>; called with \<^verbatim>\<open>num\<close> (and \<^verbatim>\<open>info\<close>), the first keeps the default
  \<^verbatim>\<open>exact=True\<close>.
\<close>

definition django_assert_num_queries ::
  "config \<Rightarrow> int \<Rightarrow> string option \<Rightarrow> string list \<Rightarrow> string option" where
  "django_assert_num_queries pytestconfig num info captured_queries =
     assert_num_queries pytestconfig num True info captured_queries"

definition django_assert_max_num_queries ::
  "config \<Rightarrow> int \<Rightarrow> string option \<Rightarrow> string list \<Rightarrow> string option" where
  "django_assert_max_num_queries pytestconfig num info captured_queries =
     assert_num_queries pytestconfig num False info captured_queries"

section \<open>Concrete surroundings for the examples\<close>

text \<open>
  A Django in which every call succeeds and \<^verbatim>\<open>import_string\<close> finds every class, an
  environment with none of the variables set, the default command line, a request with
  given \<^verbatim>\<open>fixturenames\<close>, and the state at the start of a session.
\<close>

definition example_django :: django where
  "example_django =
     \<lparr>skip_if_no_django = None,
      import_string = (\<lambda>dotted_path. Inr dotted_path),
      setup_databases = (\<lambda>kw. Inr [''test_default'']),
      teardown_databases = (\<lambda>db_cfg verbosity. None),
      setUpClass = (\<lambda>tc. None),
      pre_setup = (\<lambda>tc. None),
      py_repr = (\<lambda>e. exc_class e @ ''('' @ quoted (exc_str e) @ '')'')\<rparr>"

definition example_environ :: os_environ where
  "example_environ =
     \<lparr>TOX_PARALLEL_ENV = None,
      DJANGO_TRANSACTION_TEST_CASE_CLASS = None,
      DJANGO_TEST_CASE_CLASS = None,
      DJANGO_LIVE_TEST_SERVER_ADDRESS = None\<rparr>"

definition example_config :: config where
  "example_config =
     \<lparr>workerinput = None, nomigrations = False, reuse_db = False, create_db = False,
      verbose = 0, transaction_testcase_class = None, testcase_class = None,
      liveserver = None\<rparr>"

definition example_request :: "bool \<Rightarrow> string list \<Rightarrow> request" where
  "example_request unittest names =
     \<lparr>is_django_unittest = unittest, fixturenames = names,
      pytest_django_databases = None, request_config = example_config\<rparr>"

definition example_state :: state where
  "example_state =
     \<lparr>MIGRATION_MODULES = Migration_dict [(''polls'', Some ''polls.db_migrations'')],
      migrate_Command = Command, trace = [], warnings = [], session_finalizers = [],
      function_finalizers = [], fixture_cache = [], live_server_cached = False\<rparr>"


definition example_django_import_fails :: django where
  "example_django_import_fails =
     example_django
       \<lparr>import_string :=
          (\<lambda>dotted_path.
             Inl (Exc ''ModuleNotFoundError'' (''No module named '' @ quoted ''nope'')))\<rparr>"

section \<open>Decimal strings\<close>

declare str_nat.simps [simp del]

lemma str_nat_digit: "n < 10 \<Longrightarrow> str_nat n = [digit_char n]"
  by (subst str_nat.simps) simp

lemma str_int_2: "str_int 2 = ''2''"
  by (simp add: str_int_def str_nat_digit digit_char_def)

lemma str_int_3: "str_int 3 = ''3''"
  by (simp add: str_int_def str_nat_digit digit_char_def)

section \<open>The query-count assertions: properties\<close>

text \<open>
  Claim C9. \<^verbatim>\<open>django_assert_num_queries(n)\<close> passes exactly when the wrapped block performed
  \<open>n\<close> queries. Otherwise it fails with the message
  \<^verbatim>\<open>Expected to perform <n> queries but <k> were done\<close> (\<^verbatim>\<open>1 was\<close> for one query), then the
  \<^verbatim>\<open>info\<close> text on a line of its own when one was given, then the list of the executed
  statements when verbose mode is on and the hint \<^verbatim>\<open>(add -v option to show queries)\<close>
  otherwise. With \<open>n = 2\<close> and three queries the message starts with
  \<^verbatim>\<open>Expected to perform 2 queries but 3 were\<close>.
\<close>

theorem django_assert_num_queries_exact:
  "(django_assert_num_queries pytestconfig num info captured_queries = None)
     = (int (length captured_queries) = num)
   \<and> (int (length captured_queries) \<noteq> num \<longrightarrow>
        django_assert_num_queries pytestconfig num info captured_queries =
          Some (''Expected to perform '' @ str_int num @ '' queries but ''
                 @ (if length captured_queries = 1 then ''1 was''
                    else str_int (int (length captured_queries)) @ '' were'')
                 @ '' done''
                 @ (case info of None \<Rightarrow> [] | Some i \<Rightarrow> if i = [] then [] else ''\<newline>'' @ i)
                 @ (if 0 < verbose pytestconfig
                    then ''\<newline>\<newline>Queries:\<newline>========\<newline>\<newline>''
                           @ join ''\<newline>\<newline>'' captured_queries
                    else '' (add -v option to show queries)'')))
   \<and> (\<exists>rest. django_assert_num_queries pytestconfig 2 info [q1, q2, q3] =
          Some (''Expected to perform 2 queries but 3 were'' @ rest))"
  by (auto simp add: django_assert_num_queries_def assert_num_queries_def Let_def truthy_def
        str_int_2 str_int_3 split: option.splits)

theorem django_assert_num_queries_exact_witness:
  "int (length [''SELECT 1'', ''SELECT 2'', ''SELECT 3'']) \<noteq> 2
   \<and> django_assert_num_queries example_config 2 None [''SELECT 1'', ''SELECT 2'', ''SELECT 3'']
       = Some ''Expected to perform 2 queries but 3 were done (add -v option to show queries)''
   \<and> django_assert_num_queries (example_config\<lparr>verbose := 1\<rparr>) 2 None
         [''SELECT 1'', ''SELECT 2'', ''SELECT 3'']
       = Some (''Expected to perform 2 queries but 3 were done''
                @ ''\<newline>\<newline>Queries:\<newline>========\<newline>\<newline>''
                @ ''SELECT 1\<newline>\<newline>SELECT 2\<newline>\<newline>SELECT 3'')
   \<and> django_assert_num_queries example_config 2 None [''SELECT 1'', ''SELECT 2''] = None"
  using django_assert_num_queries_exact
          [of example_config 2 None "[''SELECT 1'', ''SELECT 2'', ''SELECT 3'']"]
        django_assert_num_queries_exact
          [of "example_config\<lparr>verbose := 1\<rparr>" 2 None "[''SELECT 1'', ''SELECT 2'', ''SELECT 3'']"]
        django_assert_num_queries_exact
          [of example_config 2 None "[''SELECT 1'', ''SELECT 2'']"]
  by (simp add: example_config_def str_int_2 str_int_3)

text \<open>
  Claim C10. \<^verbatim>\<open>django_assert_max_num_queries(n)\<close> fails exactly when the wrapped block
  performed more than \<open>n\<close> queries; a block that performed exactly \<open>n\<close> queries passes.
\<close>

theorem django_assert_max_num_queries_bound:
  "(django_assert_max_num_queries pytestconfig num info captured_queries \<noteq> None)
     = (num < int (length captured_queries))
   \<and> django_assert_max_num_queries pytestconfig (int (length captured_queries)) info
         captured_queries = None"
  by (simp add: django_assert_max_num_queries_def assert_num_queries_def Let_def)

theorem django_assert_max_num_queries_bound_witness:
  "django_assert_max_num_queries example_config 2 None [''SELECT 1'', ''SELECT 2''] = None
   \<and> django_assert_max_num_queries example_config 2 None [''SELECT 1''] = None
   \<and> django_assert_max_num_queries example_config 2 None
         [''SELECT 1'', ''SELECT 2'', ''SELECT 3''] \<noteq> None"
  using django_assert_max_num_queries_bound [of example_config 2 None "[''SELECT 1'', ''SELECT 2'']"]
        django_assert_max_num_queries_bound [of example_config 2 None "[''SELECT 1'']"]
        django_assert_max_num_queries_bound
          [of example_config 2 None "[''SELECT 1'', ''SELECT 2'', ''SELECT 3'']"]
  by simp

section \<open>The parallel suffix: properties\<close>

lemma get_test_name_update:
  "get_test_name (d\<lparr>TEST := Some (AList.update ''NAME'' (Some v) t)\<rparr>) = Some v"
  by (simp add: get_test_name_def update_conv')

lemma set_suffix_to_test_databases_length:
  "length (set_suffix_to_test_databases s dbs) = length dbs"
  by (induction dbs) auto

lemma set_suffix_to_test_databases_nth:
  "i < length dbs \<Longrightarrow>
     set_suffix_to_test_databases s dbs ! i
       = (fst (dbs ! i), set_suffix_to_test_database s (snd (dbs ! i)))"
proof (induction dbs arbitrary: i)
  case Nil
  then show ?case by simp
next
  case (Cons a dbs)
  obtain k d where a: "a = (k, d)" by (cases a)
  show ?case using Cons a by (cases i) simp_all
qed

text \<open>
  Claim C3. Applying a worker suffix \<open>s\<close> changes every configured connection, and only
  its test name: a configured test name \<open>t\<close> becomes \<open>t_s\<close>; with no test name, a
  connection that is not on the sqlite3 engine gets \<open>test_<NAME>_s\<close>; an in-memory
  database (no test name on sqlite3, or the test name \<^verbatim>\<open>:memory:\<close>) is left as it is. The
  tox fixture runs before the xdist fixture, so the database \<^verbatim>\<open>myapp\<close> with the tox
  environment \<^verbatim>\<open>py311-django42\<close> on the xdist worker \<^verbatim>\<open>gw3\<close> is tested in
  \<^verbatim>\<open>test_myapp_py311-django42_gw3\<close>.
\<close>

theorem set_suffix_to_test_databases_names:
  "(\<forall>t. get_test_name d = Some t \<and> t \<noteq> [] \<and> t \<noteq> '':memory:'' \<longrightarrow>
        get_test_name (set_suffix_to_test_database s d) = Some (t @ ''_'' @ s))
   \<and> (\<not> truthy (get_test_name d) \<and> ENGINE d \<noteq> ''django.db.backends.sqlite3'' \<longrightarrow>
        get_test_name (set_suffix_to_test_database s d) = Some (''test_'' @ NAME d @ ''_'' @ s))
   \<and> (in_memory d \<longrightarrow> set_suffix_to_test_database s d = d)
   \<and> ENGINE (set_suffix_to_test_database s d) = ENGINE d
   \<and> NAME (set_suffix_to_test_database s d) = NAME d
   \<and> length (set_suffix_to_test_databases s dbs) = length dbs
   \<and> (\<forall>i<length dbs.
         set_suffix_to_test_databases s dbs ! i
           = (fst (dbs ! i), set_suffix_to_test_database s (snd (dbs ! i))))
   \<and> django_db_modify_db_settings example_django
        (example_environ\<lparr>TOX_PARALLEL_ENV := Some ''py311-django42''\<rparr>)
        ((example_request False [])
           \<lparr>request_config := example_config\<lparr>workerinput := Some [(''workerid'', ''gw3'')]\<rparr>\<rparr>)
        [(''default'',
          \<lparr>ENGINE = ''django.db.backends.postgresql'', NAME = ''myapp'', TEST = None\<rparr>)]
      = Inr [(''default'',
          \<lparr>ENGINE = ''django.db.backends.postgresql'', NAME = ''myapp'',
           TEST = Some [(''NAME'', Some ''test_myapp_py311-django42_gw3'')]\<rparr>)]"
proof -
  have a: "\<forall>t. get_test_name d = Some t \<and> t \<noteq> [] \<and> t \<noteq> '':memory:'' \<longrightarrow>
        get_test_name (set_suffix_to_test_database s d) = Some (t @ ''_'' @ s)"
    by (simp add: set_suffix_to_test_database_def truthy_def get_test_name_update Let_def)
  have b: "\<not> truthy (get_test_name d) \<and> ENGINE d \<noteq> ''django.db.backends.sqlite3'' \<longrightarrow>
        get_test_name (set_suffix_to_test_database s d) = Some (''test_'' @ NAME d @ ''_'' @ s)"
    by (simp add: set_suffix_to_test_database_def get_test_name_update Let_def)
  have c: "in_memory d \<longrightarrow> set_suffix_to_test_database s d = d"
    by (auto simp add: set_suffix_to_test_database_def in_memory_def truthy_def Let_def)
  have e: "ENGINE (set_suffix_to_test_database s d) = ENGINE d
           \<and> NAME (set_suffix_to_test_database s d) = NAME d"
    by (simp add: set_suffix_to_test_database_def Let_def split: option.splits)
  have f: "django_db_modify_db_settings example_django
        (example_environ\<lparr>TOX_PARALLEL_ENV := Some ''py311-django42''\<rparr>)
        ((example_request False [])
           \<lparr>request_config := example_config\<lparr>workerinput := Some [(''workerid'', ''gw3'')]\<rparr>\<rparr>)
        [(''default'',
          \<lparr>ENGINE = ''django.db.backends.postgresql'', NAME = ''myapp'', TEST = None\<rparr>)]
      = Inr [(''default'',
          \<lparr>ENGINE = ''django.db.backends.postgresql'', NAME = ''myapp'',
           TEST = Some [(''NAME'', Some ''test_myapp_py311-django42_gw3'')]\<rparr>)]"
    by (simp add: django_db_modify_db_settings_def
          django_db_modify_db_settings_parallel_suffix_def
          django_db_modify_db_settings_tox_suffix_def
          django_db_modify_db_settings_xdist_suffix_def
          example_django_def example_environ_def example_request_def example_config_def
          set_suffix_to_test_database_def get_test_name_def truthy_def Let_def)
  from a b c e f show ?thesis
    by (simp add: set_suffix_to_test_databases_length set_suffix_to_test_databases_nth)
qed

theorem set_suffix_to_test_databases_names_witness:
  "get_test_name \<lparr>ENGINE = ''django.db.backends.postgresql'', NAME = ''myapp'',
                   TEST = Some [(''CHARSET'', None), (''NAME'', Some ''custom'')]\<rparr>
     = Some ''custom''
   \<and> get_test_name (set_suffix_to_test_database ''gw3''
        \<lparr>ENGINE = ''django.db.backends.postgresql'', NAME = ''myapp'',
         TEST = Some [(''CHARSET'', None), (''NAME'', Some ''custom'')]\<rparr>)
     = Some ''custom_gw3''
   \<and> \<not> truthy (get_test_name
          \<lparr>ENGINE = ''django.db.backends.postgresql'', NAME = ''myapp'', TEST = None\<rparr>)
   \<and> get_test_name (set_suffix_to_test_database ''gw3''
        \<lparr>ENGINE = ''django.db.backends.postgresql'', NAME = ''myapp'', TEST = None\<rparr>)
     = Some ''test_myapp_gw3''
   \<and> in_memory \<lparr>ENGINE = ''django.db.backends.sqlite3'', NAME = ''db.sqlite3'', TEST = None\<rparr>
   \<and> set_suffix_to_test_database ''gw3''
        \<lparr>ENGINE = ''django.db.backends.sqlite3'', NAME = ''db.sqlite3'', TEST = None\<rparr>
     = \<lparr>ENGINE = ''django.db.backends.sqlite3'', NAME = ''db.sqlite3'', TEST = None\<rparr>
   \<and> in_memory \<lparr>ENGINE = ''django.db.backends.sqlite3'', NAME = ''db.sqlite3'',
                 TEST = Some [(''NAME'', Some '':memory:'')]\<rparr>
   \<and> set_suffix_to_test_database ''gw3''
        \<lparr>ENGINE = ''django.db.backends.sqlite3'', NAME = ''db.sqlite3'',
         TEST = Some [(''NAME'', Some '':memory:'')]\<rparr>
     = \<lparr>ENGINE = ''django.db.backends.sqlite3'', NAME = ''db.sqlite3'',
        TEST = Some [(''NAME'', Some '':memory:'')]\<rparr>"
  using set_suffix_to_test_databases_names
          [of "\<lparr>ENGINE = ''django.db.backends.postgresql'', NAME = ''myapp'',
                TEST = Some [(''CHARSET'', None), (''NAME'', Some ''custom'')]\<rparr>" "''gw3''" "[]"]
        set_suffix_to_test_databases_names
          [of "\<lparr>ENGINE = ''django.db.backends.postgresql'', NAME = ''myapp'', TEST = None\<rparr>"
              "''gw3''" "[]"]
        set_suffix_to_test_databases_names
          [of "\<lparr>ENGINE = ''django.db.backends.sqlite3'', NAME = ''db.sqlite3'', TEST = None\<rparr>"
              "''gw3''" "[]"]
        set_suffix_to_test_databases_names
          [of "\<lparr>ENGINE = ''django.db.backends.sqlite3'', NAME = ''db.sqlite3'',
                TEST = Some [(''NAME'', Some '':memory:'')]\<rparr>" "''gw3''" "[]"]
  by (simp add: get_test_name_def truthy_def in_memory_def)

section \<open>The database setup of the session: properties\<close>



lemma run_finalizer_modules:
  "MIGRATION_MODULES (snd (run_finalizer dj request f st)) = MIGRATION_MODULES st
   \<and> migrate_Command (snd (run_finalizer dj request f st)) = migrate_Command st"
  by (cases f)
     (simp_all add: run_finalizer_def teardown_database_def emit_def warn_def Let_def
        split: option.splits)

lemma run_finalizers_modules:
  "MIGRATION_MODULES (snd (run_finalizers dj request fs st)) = MIGRATION_MODULES st
   \<and> migrate_Command (snd (run_finalizers dj request fs st)) = migrate_Command st"
proof (induction fs arbitrary: st)
  case Nil
  show ?case by simp
next
  case (Cons f fs)
  obtain r st1 where a: "run_finalizer dj request f st = (r, st1)"
    by (cases "run_finalizer dj request f st")
  obtain r' st2 where b: "run_finalizers dj request fs st1 = (r', st2)"
    by (cases "run_finalizers dj request fs st1")
  from a have "MIGRATION_MODULES st1 = MIGRATION_MODULES st
               \<and> migrate_Command st1 = migrate_Command st"
    using run_finalizer_modules [of dj request f st] by simp
  moreover from b have "MIGRATION_MODULES st2 = MIGRATION_MODULES st1
                        \<and> migrate_Command st2 = migrate_Command st1"
    using Cons.IH [of st1] by simp
  ultimately show ?case using a b by simp
qed

lemma django_db_setup_modules:
  "MIGRATION_MODULES (snd (django_db_setup dj request use_migrations keepdb createdb st))
     = (if use_migrations then MIGRATION_MODULES st else DisableMigrations)
   \<and> migrate_Command (snd (django_db_setup dj request use_migrations keepdb createdb st))
     = (if use_migrations then migrate_Command st else MigrateSilentCommand)"
  by (simp add: django_db_setup_def disable_native_migrations_def emit_def
        session_addfinalizer_def Let_def split: sum.splits)



text \<open>
  Claim C7, as the code has it. Nothing in \<^verbatim>\<open>django_db_setup\<close>, in its finalizer or anywhere
  else in the module assigns \<^verbatim>\<open>settings.MIGRATION_MODULES\<close> or \<^verbatim>\<open>migrate.Command\<close> back: after
  \<^verbatim>\<open>django_db_setup\<close> with \<^verbatim>\<open>use_migrations\<close> false, and after the session's finalizers have
  run, the registry is the sentinel and the command is the silent one. The registry is
  what it was only when \<^verbatim>\<open>use_migrations\<close> is true.
\<close>

theorem disable_native_migrations_not_restored:
  "MIGRATION_MODULES
     (snd (session_finish dj request
        (snd (django_db_setup dj request use_migrations keepdb createdb st))))
     = (if use_migrations then MIGRATION_MODULES st else DisableMigrations)
   \<and> migrate_Command
     (snd (session_finish dj request
        (snd (django_db_setup dj request use_migrations keepdb createdb st))))
     = (if use_migrations then migrate_Command st else MigrateSilentCommand)"
  using django_db_setup_modules [of dj request use_migrations keepdb createdb st]
  by (simp add: session_finish_def run_finalizers_modules)

theorem disable_native_migrations_not_restored_witness:
  "MIGRATION_MODULES
     (snd (session_finish example_django (example_request False [])
        (snd (django_db_setup example_django (example_request False []) False False False
                example_state))))
     = DisableMigrations
   \<and> MIGRATION_MODULES
     (snd (session_finish example_django (example_request False [])
        (snd (django_db_setup example_django (example_request False []) True False False
                example_state))))
     = Migration_dict [(''polls'', Some ''polls.db_migrations'')]"
  using disable_native_migrations_not_restored
          [of example_django "example_request False []" False False False example_state]
        disable_native_migrations_not_restored
          [of example_django "example_request False []" True False False example_state]
  by (simp add: example_state_def)

text \<open>
  The claim as the specification words it fails: a session that switched the migrations
  off, with no migration run, ends with a registry that is not the one it started with.
\<close>

theorem migration_registry_round_trip_counterexample:
  "MIGRATION_MODULES
     (snd (session_finish example_django (example_request False [])
        (snd (django_db_setup example_django (example_request False []) False False False
                example_state))))
     \<noteq> MIGRATION_MODULES example_state"
  using django_db_setup_modules
          [of example_django "example_request False []" False False False example_state]
  by (simp add: session_finish_def run_finalizers_modules example_state_def)

text \<open>
  Claim C8. With \<^verbatim>\<open>use_migrations\<close> false, \<^verbatim>\<open>settings.MIGRATION_MODULES\<close> is the sentinel: every
  app name is contained in it and maps to \<^verbatim>\<open>None\<close>. \<^verbatim>\<open>migrate.Command\<close> is the silent
  command: whatever keyword arguments it is called with, and so whatever verbosity was
  asked for, Django's \<^verbatim>\<open>handle\<close> receives them with \<^verbatim>\<open>verbosity\<close> set to \<open>0\<close>.
\<close>

theorem disable_native_migrations_sentinel:
  "contains (MIGRATION_MODULES (snd (django_db_setup dj request False keepdb createdb st))) app
   \<and> getitem (MIGRATION_MODULES (snd (django_db_setup dj request False keepdb createdb st))) app
       = Inr None
   \<and> handle (migrate_Command (snd (django_db_setup dj request False keepdb createdb st)))
        django_handle kw
       = django_handle (AList.update ''verbosity'' (PyInt 0) kw)
   \<and> map_of (AList.update ''verbosity'' (PyInt 0) kw) ''verbosity'' = Some (PyInt 0)
   \<and> MIGRATION_MODULES (disable_native_migrations st) = DisableMigrations
   \<and> migrate_Command (disable_native_migrations st) = MigrateSilentCommand"
  using django_db_setup_modules [of dj request False keepdb createdb st]
  by (simp add: contains_def getitem_def handle_def update_Some_unfold
        disable_native_migrations_def)

theorem disable_native_migrations_sentinel_witness:
  "contains (MIGRATION_MODULES
       (snd (django_db_setup example_django (example_request False []) False False False
               example_state))) ''auth''
   \<and> \<not> contains (MIGRATION_MODULES example_state) ''auth''
   \<and> getitem (MIGRATION_MODULES
       (snd (django_db_setup example_django (example_request False []) False False False
               example_state))) ''polls''
       = Inr None
   \<and> getitem (MIGRATION_MODULES example_state) ''polls'' = Inr (Some ''polls.db_migrations'')
   \<and> handle (migrate_Command
       (snd (django_db_setup example_django (example_request False []) False False False
               example_state)))
        (\<lambda>kw. map_of kw ''verbosity'') [(''verbosity'', PyInt 2), (''interactive'', PyBool False)]
       = Some (PyInt 0)
   \<and> handle (migrate_Command example_state)
        (\<lambda>kw. map_of kw ''verbosity'') [(''verbosity'', PyInt 2), (''interactive'', PyBool False)]
       = Some (PyInt 2)"
  using disable_native_migrations_sentinel
          [of example_django "example_request False []" False False example_state "''auth''"
              "\<lambda>kw. map_of kw ''verbosity''"
              "[(''verbosity'', PyInt 2), (''interactive'', PyBool False)]"]
        disable_native_migrations_sentinel
          [of example_django "example_request False []" False False example_state "''polls''"
              "\<lambda>kw. map_of kw ''verbosity''"
              "[(''verbosity'', PyInt 2), (''interactive'', PyBool False)]"]
  by (simp add: example_state_def contains_def getitem_def handle_def)

section \<open>The database fixtures of a test: properties\<close>

lemmas example_defs = example_django_def example_environ_def example_request_def
  example_config_def example_state_def

lemmas fixture_defs = setup_test_def run_test_def fixture_named_def getfixturevalue_def db_def
  transactional_db_def django_db_reset_sequences_def live_server_helper_def live_server_def
  django_db_fixture_helper_def emit_def addfinalizer_def session_addfinalizer_def
  run_finalizer_def py_or_default_def py_or_def truthy_def Let_def

lemma helper_returns:
  assumes "\<not> is_django_unittest request"
    and "transactional \<or> ''live_server'' \<notin> set (fixturenames request)"
    and "import_string dj
           (if transactional
            then py_or_default (transaction_testcase_class (request_config request))
                   (DJANGO_TRANSACTION_TEST_CASE_CLASS environ)
                   ''django.test.TransactionTestCase''
            else py_or_default (testcase_class (request_config request))
                   (DJANGO_TEST_CASE_CLASS environ) ''django.test.TestCase'')
         = Inr test_case_class"
    and "tc = \<lparr>tc_base = test_case_class,
               tc_reset_sequences = (if transactional \<and> reset_sequences then Some True else None),
               tc_databases = pytest_django_databases request\<rparr>"
    and "setUpClass dj tc = None" and "pre_setup dj tc = None"
  shows "django_db_fixture_helper dj environ request transactional reset_sequences st
         = (None,
            st\<lparr>trace := trace st @ [Unblock, SetUpClass tc, Pre_setup tc],
               function_finalizers :=
                 Fin_post_teardown tc # Fin_tearDownClass tc # Fin_blocker_restore
                   # function_finalizers st\<rparr>)"
  using assms
  by (auto simp add: django_db_fixture_helper_def Let_def emit_def addfinalizer_def)

lemma run_three_finalizers:
  "run_finalizers dj request
     [Fin_post_teardown tc, Fin_tearDownClass tc, Fin_blocker_restore] st
   = (None, st\<lparr>trace := trace st @ [Post_teardown tc, TearDownClass tc, Restore]\<rparr>)"
  by (simp add: run_finalizer_def emit_def)


lemma fixture_named_reset_only:
  assumes "\<not> is_django_unittest request"
    and "''live_server'' \<notin> set (fixturenames request)"
    and "import_string dj
           (py_or_default (transaction_testcase_class (request_config request))
              (DJANGO_TRANSACTION_TEST_CASE_CLASS environ) ''django.test.TransactionTestCase'')
         = Inr test_case_class"
    and "tc = \<lparr>tc_base = test_case_class, tc_reset_sequences = Some True,
               tc_databases = pytest_django_databases request\<rparr>"
    and "setUpClass dj tc = None" and "pre_setup dj tc = None"
    and "n \<noteq> ''db''" and "n \<noteq> ''transactional_db''" and "n \<noteq> ''live_server''"
  shows "\<exists>st1. fixture_named dj environ request n st = (None, st1)
     \<and> trace st1
         = trace st
           @ (if n = ''django_db_reset_sequences''
                 \<and> ''django_db_reset_sequences'' \<notin> set (fixture_cache st)
              then [Unblock, SetUpClass tc, Pre_setup tc] else [])
     \<and> function_finalizers st1
         = (if n = ''django_db_reset_sequences''
               \<and> ''django_db_reset_sequences'' \<notin> set (fixture_cache st)
            then [Fin_post_teardown tc, Fin_tearDownClass tc, Fin_blocker_restore] else [])
           @ function_finalizers st
     \<and> (''django_db_reset_sequences'' \<in> set (fixture_cache st1))
         = (''django_db_reset_sequences'' \<in> set (fixture_cache st)
            \<or> n = ''django_db_reset_sequences'')"
proof -
  have h: "django_db_fixture_helper dj environ request True True st
         = (None,
            st\<lparr>trace := trace st @ [Unblock, SetUpClass tc, Pre_setup tc],
               function_finalizers :=
                 Fin_post_teardown tc # Fin_tearDownClass tc # Fin_blocker_restore
                   # function_finalizers st\<rparr>)"
    using assms by (intro helper_returns) simp_all
  show ?thesis
    using assms(2,7,8,9) h
    by (auto simp add: fixture_named_def getfixturevalue_def django_db_reset_sequences_def
          live_server_helper_def)
qed

lemma fillfixtures_reset_only:
  assumes "\<not> is_django_unittest request"
    and "''live_server'' \<notin> set (fixturenames request)"
    and "import_string dj
           (py_or_default (transaction_testcase_class (request_config request))
              (DJANGO_TRANSACTION_TEST_CASE_CLASS environ) ''django.test.TransactionTestCase'')
         = Inr test_case_class"
    and "tc = \<lparr>tc_base = test_case_class, tc_reset_sequences = Some True,
               tc_databases = pytest_django_databases request\<rparr>"
    and "setUpClass dj tc = None" and "pre_setup dj tc = None"
    and "''db'' \<notin> set ns" and "''transactional_db'' \<notin> set ns" and "''live_server'' \<notin> set ns"
  shows "\<exists>st1. fillfixtures dj environ request ns st = (None, st1)
     \<and> trace st1
         = trace st
           @ (if ''django_db_reset_sequences'' \<in> set ns
                 \<and> ''django_db_reset_sequences'' \<notin> set (fixture_cache st)
              then [Unblock, SetUpClass tc, Pre_setup tc] else [])
     \<and> function_finalizers st1
         = (if ''django_db_reset_sequences'' \<in> set ns
               \<and> ''django_db_reset_sequences'' \<notin> set (fixture_cache st)
            then [Fin_post_teardown tc, Fin_tearDownClass tc, Fin_blocker_restore] else [])
           @ function_finalizers st
     \<and> (''django_db_reset_sequences'' \<in> set (fixture_cache st1))
         = (''django_db_reset_sequences'' \<in> set (fixture_cache st)
            \<or> ''django_db_reset_sequences'' \<in> set ns)"
  using assms(7,8,9)
proof (induction ns arbitrary: st)
  case Nil
  show ?case by simp
next
  case (Cons n ns)
  from Cons.prems have n: "n \<noteq> ''db''" "n \<noteq> ''transactional_db''" "n \<noteq> ''live_server''"
    and ns: "''db'' \<notin> set ns" "''transactional_db'' \<notin> set ns" "''live_server'' \<notin> set ns"
    by auto
  obtain st1 where s1: "fixture_named dj environ request n st = (None, st1)"
    and t1: "trace st1
         = trace st
           @ (if n = ''django_db_reset_sequences''
                 \<and> ''django_db_reset_sequences'' \<notin> set (fixture_cache st)
              then [Unblock, SetUpClass tc, Pre_setup tc] else [])"
    and f1: "function_finalizers st1
         = (if n = ''django_db_reset_sequences''
               \<and> ''django_db_reset_sequences'' \<notin> set (fixture_cache st)
            then [Fin_post_teardown tc, Fin_tearDownClass tc, Fin_blocker_restore] else [])
           @ function_finalizers st"
    and c1: "(''django_db_reset_sequences'' \<in> set (fixture_cache st1))
         = (''django_db_reset_sequences'' \<in> set (fixture_cache st)
            \<or> n = ''django_db_reset_sequences'')"
    using fixture_named_reset_only [OF assms(1-6) n, of st] by blast
  obtain st2 where s2: "fillfixtures dj environ request ns st1 = (None, st2)"
    and t2: "trace st2
         = trace st1
           @ (if ''django_db_reset_sequences'' \<in> set ns
                 \<and> ''django_db_reset_sequences'' \<notin> set (fixture_cache st1)
              then [Unblock, SetUpClass tc, Pre_setup tc] else [])"
    and f2: "function_finalizers st2
         = (if ''django_db_reset_sequences'' \<in> set ns
               \<and> ''django_db_reset_sequences'' \<notin> set (fixture_cache st1)
            then [Fin_post_teardown tc, Fin_tearDownClass tc, Fin_blocker_restore] else [])
           @ function_finalizers st1"
    and c2: "(''django_db_reset_sequences'' \<in> set (fixture_cache st2))
         = (''django_db_reset_sequences'' \<in> set (fixture_cache st1)
            \<or> ''django_db_reset_sequences'' \<in> set ns)"
    using Cons.IH [OF ns, of st1] by blast
  have "fillfixtures dj environ request (n # ns) st = (None, st2)"
    using s1 s2 by simp
  moreover have "trace st2
         = trace st
           @ (if ''django_db_reset_sequences'' \<in> set (n # ns)
                 \<and> ''django_db_reset_sequences'' \<notin> set (fixture_cache st)
              then [Unblock, SetUpClass tc, Pre_setup tc] else [])"
    using t1 t2 c1 by auto
  moreover have "function_finalizers st2
         = (if ''django_db_reset_sequences'' \<in> set (n # ns)
               \<and> ''django_db_reset_sequences'' \<notin> set (fixture_cache st)
            then [Fin_post_teardown tc, Fin_tearDownClass tc, Fin_blocker_restore] else [])
           @ function_finalizers st"
    using f1 f2 c1 by auto
  moreover have "(''django_db_reset_sequences'' \<in> set (fixture_cache st2))
         = (''django_db_reset_sequences'' \<in> set (fixture_cache st)
            \<or> ''django_db_reset_sequences'' \<in> set (n # ns))"
    using c1 c2 by auto
  ultimately show ?case by blast
qed

text \<open>
  Claim C4. For a test that is not a Django unittest test case, the fixture
  \<^verbatim>\<open>django_db_reset_sequences\<close> acquires in the order blocker unblock, \<^verbatim>\<open>setUpClass\<close>,
  \<^verbatim>\<open>_pre_setup\<close>, and registers its finalizers so that they are called in the order
  \<^verbatim>\<open>_post_teardown\<close>, \<^verbatim>\<open>tearDownClass\<close>, blocker restore. In a test whose only database fixture
  it is, this is the whole lifecycle, and the three finalizers run, the blocker restore
  last, whether the test function passes or fails.
\<close>

theorem django_db_reset_sequences_lifecycle_order:
  assumes "\<not> is_django_unittest request"
    and "import_string dj
           (py_or_default (transaction_testcase_class (request_config request))
              (DJANGO_TRANSACTION_TEST_CASE_CLASS environ) ''django.test.TransactionTestCase'')
         = Inr test_case_class"
    and "tc = \<lparr>tc_base = test_case_class, tc_reset_sequences = Some True,
               tc_databases = pytest_django_databases request\<rparr>"
    and "setUpClass dj tc = None" and "pre_setup dj tc = None"
  shows "django_db_reset_sequences dj environ request st
         = (None,
            st\<lparr>trace := trace st @ [Unblock, SetUpClass tc, Pre_setup tc],
               function_finalizers :=
                 [Fin_post_teardown tc, Fin_tearDownClass tc, Fin_blocker_restore]
                   @ function_finalizers st\<rparr>)
     \<and> run_finalizers dj request
         [Fin_post_teardown tc, Fin_tearDownClass tc, Fin_blocker_restore] st
         = (None, st\<lparr>trace := trace st @ [Post_teardown tc, TearDownClass tc, Restore]\<rparr>)
     \<and> (''django_db_reset_sequences'' \<in> set (fixturenames request)
          \<and> ''db'' \<notin> set (fixturenames request)
          \<and> ''transactional_db'' \<notin> set (fixturenames request)
          \<and> ''live_server'' \<notin> set (fixturenames request) \<longrightarrow>
        fst (run_test dj environ request body_passes st) = None
        \<and> trace (snd (run_test dj environ request body_passes st))
            = trace st
              @ [Unblock, SetUpClass tc, Pre_setup tc, Test_body body_passes,
                 Post_teardown tc, TearDownClass tc, Restore])"
proof -
  have a: "django_db_reset_sequences dj environ request st
         = (None,
            st\<lparr>trace := trace st @ [Unblock, SetUpClass tc, Pre_setup tc],
               function_finalizers :=
                 [Fin_post_teardown tc, Fin_tearDownClass tc, Fin_blocker_restore]
                   @ function_finalizers st\<rparr>)"
    unfolding django_db_reset_sequences_def
    using assms by (subst helper_returns [where tc = tc and test_case_class = test_case_class]) simp_all
  have c: "fst (run_test dj environ request body_passes st) = None
        \<and> trace (snd (run_test dj environ request body_passes st))
            = trace st
              @ [Unblock, SetUpClass tc, Pre_setup tc, Test_body body_passes,
                 Post_teardown tc, TearDownClass tc, Restore]"
    if n: "''django_db_reset_sequences'' \<in> set (fixturenames request)"
          "''db'' \<notin> set (fixturenames request)"
          "''transactional_db'' \<notin> set (fixturenames request)"
          "''live_server'' \<notin> set (fixturenames request)"
  proof -
    obtain st1 where s1: "setup_test dj environ request st = (None, st1)"
      and t1: "trace st1 = trace st @ [Unblock, SetUpClass tc, Pre_setup tc]"
      and f1: "function_finalizers st1
                 = [Fin_post_teardown tc, Fin_tearDownClass tc, Fin_blocker_restore]"
      using fillfixtures_reset_only [OF assms(1) n(4) assms(2-5) n(2,3,4),
              of "st\<lparr>function_finalizers := [], fixture_cache := []\<rparr>"] n(1)
      by (auto simp add: setup_test_def)
    show ?thesis
      using s1 t1 f1 by (simp add: run_test_def Let_def run_finalizer_def emit_def)
  qed
  have b: "run_finalizers dj request
         [Fin_post_teardown tc, Fin_tearDownClass tc, Fin_blocker_restore] st
         = (None, st\<lparr>trace := trace st @ [Post_teardown tc, TearDownClass tc, Restore]\<rparr>)"
    by (rule run_three_finalizers)
  from a b c show ?thesis by blast
qed

theorem django_db_reset_sequences_lifecycle_order_witness:
  "\<not> is_django_unittest
       (example_request False [''_live_server_helper'', ''django_db_reset_sequences''])
   \<and> import_string example_django ''django.test.TransactionTestCase''
       = Inr ''django.test.TransactionTestCase''
   \<and> trace (snd (run_test example_django example_environ
          (example_request False [''_live_server_helper'', ''django_db_reset_sequences''])
          False example_state))
     = [Unblock,
        SetUpClass \<lparr>tc_base = ''django.test.TransactionTestCase'',
                    tc_reset_sequences = Some True, tc_databases = None\<rparr>,
        Pre_setup \<lparr>tc_base = ''django.test.TransactionTestCase'',
                   tc_reset_sequences = Some True, tc_databases = None\<rparr>,
        Test_body False,
        Post_teardown \<lparr>tc_base = ''django.test.TransactionTestCase'',
                       tc_reset_sequences = Some True, tc_databases = None\<rparr>,
        TearDownClass \<lparr>tc_base = ''django.test.TransactionTestCase'',
                       tc_reset_sequences = Some True, tc_databases = None\<rparr>,
        Restore]"
  using django_db_reset_sequences_lifecycle_order
          [where request = "example_request False
                              [''_live_server_helper'', ''django_db_reset_sequences'']"
             and dj = example_django and environ = example_environ
             and test_case_class = "''django.test.TransactionTestCase''"
             and tc = "\<lparr>tc_base = ''django.test.TransactionTestCase'',
                       tc_reset_sequences = Some True, tc_databases = None\<rparr>"
             and st = example_state and body_passes = False]
  by (simp add: example_defs py_or_default_def py_or_def truthy_def)

lemma pre_setups_append: "pre_setups (xs @ ys) = pre_setups xs @ pre_setups ys"
  by (induction xs rule: pre_setups.induct) simp_all

lemma fixture_named_live_server_db:
  assumes "\<not> is_django_unittest request"
    and "''live_server'' \<in> set (fixturenames request)"
    and "''transactional_db'' \<notin> set (fixturenames request)"
    and "''django_db_reset_sequences'' \<notin> set (fixturenames request)"
    and "skip_if_no_django dj = None"
    and "import_string dj
           (py_or_default (transaction_testcase_class (request_config request))
              (DJANGO_TRANSACTION_TEST_CASE_CLASS environ) ''django.test.TransactionTestCase'')
         = Inr test_case_class"
    and "tc = \<lparr>tc_base = test_case_class, tc_reset_sequences = None,
               tc_databases = pytest_django_databases request\<rparr>"
    and "setUpClass dj tc = None" and "pre_setup dj tc = None"
    and "n \<noteq> ''transactional_db''" and "n \<noteq> ''django_db_reset_sequences''"
    and "''db'' \<in> set (fixture_cache st) \<longrightarrow> ''transactional_db'' \<in> set (fixture_cache st)"
    and "''_live_server_helper'' \<in> set (fixture_cache st)
           \<longrightarrow> ''transactional_db'' \<in> set (fixture_cache st)"
  shows "\<exists>st1. fixture_named dj environ request n st = (None, st1)
     \<and> (''db'' \<in> set (fixture_cache st1) \<longrightarrow> ''transactional_db'' \<in> set (fixture_cache st1))
     \<and> (''_live_server_helper'' \<in> set (fixture_cache st1)
           \<longrightarrow> ''transactional_db'' \<in> set (fixture_cache st1))
     \<and> pre_setups (trace st1)
         = pre_setups (trace st)
           @ (if ''transactional_db'' \<notin> set (fixture_cache st)
                 \<and> (n = ''db'' \<or> n = ''_live_server_helper'')
              then [tc] else [])
     \<and> (''transactional_db'' \<in> set (fixture_cache st1))
         = (''transactional_db'' \<in> set (fixture_cache st)
            \<or> n = ''db'' \<or> n = ''_live_server_helper'')"
proof -
  have h: "django_db_fixture_helper dj environ request True False st
         = (None,
            st\<lparr>trace := trace st @ [Unblock, SetUpClass tc, Pre_setup tc],
               function_finalizers :=
                 Fin_post_teardown tc # Fin_tearDownClass tc # Fin_blocker_restore
                   # function_finalizers st\<rparr>)"
    using assms(1,6,7,8,9) by (intro helper_returns) simp_all
  have t: "transactional_db dj environ request st
         = (None,
            st\<lparr>trace := trace st @ [Unblock, SetUpClass tc, Pre_setup tc],
               function_finalizers :=
                 Fin_post_teardown tc # Fin_tearDownClass tc # Fin_blocker_restore
                   # function_finalizers st\<rparr>)"
    using assms(4) h by (simp add: transactional_db_def)
  show ?thesis
    using assms(2,3,4,5,10,11,12,13) t
    by (auto simp add: fixture_named_def getfixturevalue_def db_def live_server_helper_def
          live_server_def emit_def addfinalizer_def session_addfinalizer_def Let_def
          pre_setups_append)
qed

lemma fillfixtures_live_server_db:
  assumes "\<not> is_django_unittest request"
    and "''live_server'' \<in> set (fixturenames request)"
    and "''transactional_db'' \<notin> set (fixturenames request)"
    and "''django_db_reset_sequences'' \<notin> set (fixturenames request)"
    and "skip_if_no_django dj = None"
    and "import_string dj
           (py_or_default (transaction_testcase_class (request_config request))
              (DJANGO_TRANSACTION_TEST_CASE_CLASS environ) ''django.test.TransactionTestCase'')
         = Inr test_case_class"
    and "tc = \<lparr>tc_base = test_case_class, tc_reset_sequences = None,
               tc_databases = pytest_django_databases request\<rparr>"
    and "setUpClass dj tc = None" and "pre_setup dj tc = None"
    and "''transactional_db'' \<notin> set ns" and "''django_db_reset_sequences'' \<notin> set ns"
    and "''db'' \<in> set (fixture_cache st) \<longrightarrow> ''transactional_db'' \<in> set (fixture_cache st)"
    and "''_live_server_helper'' \<in> set (fixture_cache st)
           \<longrightarrow> ''transactional_db'' \<in> set (fixture_cache st)"
  shows "\<exists>st1. fillfixtures dj environ request ns st = (None, st1)
     \<and> pre_setups (trace st1)
         = pre_setups (trace st)
           @ (if ''transactional_db'' \<notin> set (fixture_cache st)
                 \<and> (''db'' \<in> set ns \<or> ''_live_server_helper'' \<in> set ns)
              then [tc] else [])"
  using assms(10,11,12,13)
proof (induction ns arbitrary: st)
  case Nil
  show ?case by simp
next
  case (Cons n ns)
  from Cons.prems have n: "n \<noteq> ''transactional_db''" "n \<noteq> ''django_db_reset_sequences''"
    and ns: "''transactional_db'' \<notin> set ns" "''django_db_reset_sequences'' \<notin> set ns"
    by auto
  obtain st1 where s1: "fixture_named dj environ request n st = (None, st1)"
    and i1: "''db'' \<in> set (fixture_cache st1) \<longrightarrow> ''transactional_db'' \<in> set (fixture_cache st1)"
    and j1: "''_live_server_helper'' \<in> set (fixture_cache st1)
               \<longrightarrow> ''transactional_db'' \<in> set (fixture_cache st1)"
    and p1: "pre_setups (trace st1)
         = pre_setups (trace st)
           @ (if ''transactional_db'' \<notin> set (fixture_cache st)
                 \<and> (n = ''db'' \<or> n = ''_live_server_helper'')
              then [tc] else [])"
    and c1: "(''transactional_db'' \<in> set (fixture_cache st1))
         = (''transactional_db'' \<in> set (fixture_cache st)
            \<or> n = ''db'' \<or> n = ''_live_server_helper'')"
    using fixture_named_live_server_db [OF assms(1-9) n Cons.prems(3,4)] by blast
  obtain st2 where s2: "fillfixtures dj environ request ns st1 = (None, st2)"
    and p2: "pre_setups (trace st2)
         = pre_setups (trace st1)
           @ (if ''transactional_db'' \<notin> set (fixture_cache st1)
                 \<and> (''db'' \<in> set ns \<or> ''_live_server_helper'' \<in> set ns)
              then [tc] else [])"
    using Cons.IH [OF ns i1 j1] by blast
  have "fillfixtures dj environ request (n # ns) st = (None, st2)"
    using s1 s2 by simp
  moreover have "pre_setups (trace st2)
         = pre_setups (trace st)
           @ (if ''transactional_db'' \<notin> set (fixture_cache st)
                 \<and> (''db'' \<in> set (n # ns) \<or> ''_live_server_helper'' \<in> set (n # ns))
              then [tc] else [])"
    using p1 p2 c1 by auto
  ultimately show ?case by blast
qed

text \<open>
  Claim C2, as the code has it. Take a test that is not a Django unittest test case,
  that requests \<^verbatim>\<open>live_server\<close> and \<^verbatim>\<open>db\<close> and neither \<^verbatim>\<open>transactional_db\<close> nor
  \<^verbatim>\<open>django_db_reset_sequences\<close>, and whose setup raises nothing. Whatever the order of its
  fixtures, exactly one test case is set up in its setup phase, the one derived from the
  transactional test case class without the reset of sequences; and the helper called
  with \<^verbatim>\<open>transactional=False\<close> returns at once.
\<close>

theorem live_server_with_db_is_transactional:
  assumes "\<not> is_django_unittest request"
    and "''live_server'' \<in> set (fixturenames request)"
    and "''db'' \<in> set (fixturenames request)"
    and "''transactional_db'' \<notin> set (fixturenames request)"
    and "''django_db_reset_sequences'' \<notin> set (fixturenames request)"
    and "skip_if_no_django dj = None"
    and "import_string dj
           (py_or_default (transaction_testcase_class (request_config request))
              (DJANGO_TRANSACTION_TEST_CASE_CLASS environ) ''django.test.TransactionTestCase'')
         = Inr test_case_class"
    and "tc = \<lparr>tc_base = test_case_class, tc_reset_sequences = None,
               tc_databases = pytest_django_databases request\<rparr>"
    and "setUpClass dj tc = None" and "pre_setup dj tc = None"
  shows "fst (setup_test dj environ request st) = None
     \<and> pre_setups (trace (snd (setup_test dj environ request st))) = pre_setups (trace st) @ [tc]
     \<and> django_db_fixture_helper dj environ request False reset_sequences st = (None, st)"
proof -
  obtain st1 where "setup_test dj environ request st = (None, st1)"
    and "pre_setups (trace st1) = pre_setups (trace st) @ [tc]"
    using fillfixtures_live_server_db
            [OF assms(1,2,4,5,6,7,8,9,10) assms(4,5),
             of "st\<lparr>function_finalizers := [], fixture_cache := []\<rparr>"] assms(3)
    by (auto simp add: setup_test_def)
  moreover have "django_db_fixture_helper dj environ request False reset_sequences st = (None, st)"
    using assms(2) by (simp add: django_db_fixture_helper_def)
  ultimately show ?thesis by simp
qed

theorem live_server_with_db_is_transactional_witness:
  "\<not> is_django_unittest (example_request False [''_live_server_helper'', ''live_server'', ''db''])
   \<and> ''live_server''
       \<in> set (fixturenames (example_request False [''_live_server_helper'', ''live_server'', ''db'']))
   \<and> ''db''
       \<in> set (fixturenames (example_request False [''_live_server_helper'', ''live_server'', ''db'']))
   \<and> pre_setups (trace (snd (setup_test example_django example_environ
          (example_request False [''_live_server_helper'', ''live_server'', ''db''])
          example_state)))
     = [\<lparr>tc_base = ''django.test.TransactionTestCase'', tc_reset_sequences = None,
         tc_databases = None\<rparr>]"
  using live_server_with_db_is_transactional
          [where request = "example_request False [''_live_server_helper'', ''live_server'', ''db'']"
             and dj = example_django and environ = example_environ
             and test_case_class = "''django.test.TransactionTestCase''"
             and tc = "\<lparr>tc_base = ''django.test.TransactionTestCase'',
                       tc_reset_sequences = None, tc_databases = None\<rparr>"
             and st = example_state]
  by (simp add: example_defs py_or_default_def py_or_def truthy_def)

text \<open>
  The claim as the specification words it speaks of every test. In a Django unittest test
  case that requests \<^verbatim>\<open>live_server\<close> and \<^verbatim>\<open>db\<close> the helper returns at its first guard, and no
  test case is set up at all.
\<close>

theorem live_server_with_db_unittest_counterexample:
  "fst (setup_test example_django example_environ
          (example_request True [''_live_server_helper'', ''live_server'', ''db''])
          example_state) = None
   \<and> pre_setups (trace (snd (setup_test example_django example_environ
          (example_request True [''_live_server_helper'', ''live_server'', ''db''])
          example_state))) = []"
  by (simp add: example_defs fixture_defs)

text \<open>
  Claim C1 at a test that requests \<^verbatim>\<open>db\<close> and \<^verbatim>\<open>django_db_reset_sequences\<close>, and at one that
  requests \<^verbatim>\<open>transactional_db\<close> and \<^verbatim>\<open>django_db_reset_sequences\<close>. \<^verbatim>\<open>db\<close> and
  \<^verbatim>\<open>transactional_db\<close> request \<^verbatim>\<open>django_db_reset_sequences\<close> and then go on to their own call
  of the helper, so two test cases are set up, and two pairs of \<^verbatim>\<open>_pre_setup\<close> and
  \<^verbatim>\<open>_post_teardown\<close> run in one test.
\<close>

theorem db_fixture_with_reset_sequences_sets_up_twice:
  "pre_setups (trace (snd (setup_test example_django example_environ
          (example_request False [''_live_server_helper'', ''db'', ''django_db_reset_sequences''])
          example_state)))
     = [\<lparr>tc_base = ''django.test.TransactionTestCase'', tc_reset_sequences = Some True,
         tc_databases = None\<rparr>,
        \<lparr>tc_base = ''django.test.TestCase'', tc_reset_sequences = None, tc_databases = None\<rparr>]
   \<and> pre_setups (trace (snd (setup_test example_django example_environ
          (example_request False
             [''_live_server_helper'', ''django_db_reset_sequences'', ''transactional_db''])
          example_state)))
     = [\<lparr>tc_base = ''django.test.TransactionTestCase'', tc_reset_sequences = Some True,
         tc_databases = None\<rparr>,
        \<lparr>tc_base = ''django.test.TransactionTestCase'', tc_reset_sequences = None,
         tc_databases = None\<rparr>]
   \<and> trace (snd (run_test example_django example_environ
          (example_request False [''_live_server_helper'', ''db'', ''django_db_reset_sequences''])
          True example_state))
     = [Unblock,
        SetUpClass \<lparr>tc_base = ''django.test.TransactionTestCase'',
                    tc_reset_sequences = Some True, tc_databases = None\<rparr>,
        Pre_setup \<lparr>tc_base = ''django.test.TransactionTestCase'',
                   tc_reset_sequences = Some True, tc_databases = None\<rparr>,
        Unblock,
        SetUpClass \<lparr>tc_base = ''django.test.TestCase'', tc_reset_sequences = None,
                    tc_databases = None\<rparr>,
        Pre_setup \<lparr>tc_base = ''django.test.TestCase'', tc_reset_sequences = None,
                   tc_databases = None\<rparr>,
        Test_body True,
        Post_teardown \<lparr>tc_base = ''django.test.TestCase'', tc_reset_sequences = None,
                       tc_databases = None\<rparr>,
        TearDownClass \<lparr>tc_base = ''django.test.TestCase'', tc_reset_sequences = None,
                       tc_databases = None\<rparr>,
        Restore,
        Post_teardown \<lparr>tc_base = ''django.test.TransactionTestCase'',
                       tc_reset_sequences = Some True, tc_databases = None\<rparr>,
        TearDownClass \<lparr>tc_base = ''django.test.TransactionTestCase'',
                       tc_reset_sequences = Some True, tc_databases = None\<rparr>,
        Restore]"
  by (simp add: example_defs fixture_defs)

lemma django_db_fixture_helper_import_error:
  assumes "\<not> is_django_unittest request"
    and "import_string dj
           (py_or_default (transaction_testcase_class (request_config request))
              (DJANGO_TRANSACTION_TEST_CASE_CLASS environ) ''django.test.TransactionTestCase'')
         = Inl e"
  shows "fst (django_db_fixture_helper dj environ request True reset_sequences st) = Some e"
  using assms by (simp add: django_db_fixture_helper_def Let_def)

text \<open>
  Claim C6 at a transactional test with the option \<^verbatim>\<open>transaction_testcase_class\<close> set to a
  path that cannot be imported. The helper calls Django's \<^verbatim>\<open>import_string\<close>, whose
  exception leaves the fixture as it is: its message does not name the setting.
  \<^verbatim>\<open>import_from_string\<close>, which would name the path and the setting, is not called.
\<close>

theorem import_error_is_not_wrapped:
  "fst (setup_test example_django_import_fails example_environ
          ((example_request False [''_live_server_helper'', ''transactional_db''])
             \<lparr>request_config :=
                example_config\<lparr>transaction_testcase_class := Some ''nope.Missing''\<rparr>\<rparr>)
          example_state)
     = Some (Exc ''ModuleNotFoundError'' (''No module named '' @ quoted ''nope''))
   \<and> import_from_string example_django_import_fails ''nope.Missing''
        ''transaction_testcase_class''
     = Inl (Exc ''ImportError''
             (''Could not import '' @ quoted ''nope.Missing'' @ '' for API setting ''
                @ quoted ''transaction_testcase_class''
                @ ''. ModuleNotFoundError: No module named '' @ quoted ''nope'' @ ''.''))"
  by (simp add: example_django_import_fails_def example_defs fixture_defs
        import_from_string_def)

end
